theory Spec2Isabelle
  imports Main "HOL-Library.Word"
begin

section \<open>JavaScript values\<close>

text \<open>
  The mock client is dynamically typed at its \<open>exec\<close> entry point (\<open>refOrPath: unknown\<close>),
  so the values that flow through it are modelled by a datatype of plain JavaScript data:
  primitives, arrays and plain objects (an association list from property names to values,
  the first binding of a name being the property). Numbers are the integers from
  \<open>-9007199254740992\<close> to \<open>9007199254740991\<close>, a 54-bit signed word: each of them is a
  JavaScript number, and its string is its decimal notation. Functions are not values
  of this datatype. Thrown values are \<open>Error\<close> objects identified by their message.
\<close>

datatype jsval =
    JUndefined
  | JNull
  | JBool bool
  | JNum "54 word"
  | JStr string
  | JArr "jsval list"
  | JObj "(string \<times> jsval) list"

datatype js_error = Error string | TypeError string

text \<open>Truthiness, as tested by \<open>if (x)\<close>.\<close>

fun truthy :: "jsval \<Rightarrow> bool" where
  "truthy JUndefined = False"
| "truthy JNull = False"
| "truthy (JBool b) = b"
| "truthy (JNum n) = (n \<noteq> 0)"
| "truthy (JStr s) = (s \<noteq> [])"
| "truthy (JArr xs) = True"
| "truthy (JObj fs) = True"

text \<open>The operator \<open>a ?? b\<close>: \<open>b\<close> exactly when \<open>a\<close> is \<open>null\<close> or \<open>undefined\<close>.\<close>

fun nullish :: "jsval \<Rightarrow> bool" where
  "nullish JUndefined = True"
| "nullish JNull = True"
| "nullish v = False"

definition nullish_coalesce :: "jsval \<Rightarrow> jsval \<Rightarrow> jsval" where
  "nullish_coalesce a b = (if nullish a then b else a)"

text \<open>\<open>Array.isArray(x)\<close>, and \<open>typeof x === "object" && x !== null\<close>.\<close>

fun isArray :: "jsval \<Rightarrow> bool" where
  "isArray (JArr xs) = True"
| "isArray v = False"

fun isObject :: "jsval \<Rightarrow> bool" where
  "isObject (JArr xs) = True"
| "isObject (JObj fs) = True"
| "isObject v = False"

text \<open>Property access \<open>ref.name\<close> on a value that passed the object test of \<open>exec\<close>.\<close>

fun getField :: "jsval \<Rightarrow> string \<Rightarrow> jsval" where
  "getField (JObj fs) name = (case map_of fs name of Some v \<Rightarrow> v | None \<Rightarrow> JUndefined)"
| "getField v name = JUndefined"

text \<open>
  \<open>Array.prototype.join\<close> on the strings of the elements: the empty array gives the
  empty string, otherwise the elements are concatenated with the separator between them.
\<close>

fun join :: "string \<Rightarrow> string list \<Rightarrow> string" where
  "join sep [] = []"
| "join sep [x] = x"
| "join sep (x # y # ys) = x @ sep @ join sep (y # ys)"

text \<open>Decimal digits of a number, for the string conversion of array elements.\<close>

fun natToString :: "nat \<Rightarrow> string" where
  "natToString n =
     (if n < 10 then [''0123456789'' ! n]
      else natToString (n div 10) @ [''0123456789'' ! (n mod 10)])"

declare natToString.simps [simp del]

text \<open>
  \<open>String(v)\<close>. Inside \<open>join\<close> an element that is \<open>null\<close> or \<open>undefined\<close> counts as the
  empty string, and a nested array is joined with a comma.
\<close>

fun toString :: "jsval \<Rightarrow> string" where
  "toString JUndefined = ''undefined''"
| "toString JNull = ''null''"
| "toString (JBool b) = (if b then ''true'' else ''false'')"
| "toString (JNum n) =
     (if sint n < 0 then CHR ''-'' # natToString (nat (- sint n)) else natToString (nat (sint n)))"
| "toString (JStr s) = s"
| "toString (JArr xs) = join '','' (map (\<lambda>v. if nullish v then [] else toString v) xs)"
| "toString (JObj fs) = ''[object Object]''"

definition joinElement :: "jsval \<Rightarrow> string" where
  "joinElement v = (if nullish v then [] else toString v)"

section \<open>Data model\<close>

type_synonym addr = nat

type_synonym ProcedurePath = "string list"

text \<open>A typed \<open>ProcedurePath\<close> as the runtime value it is: an array of strings.\<close>

definition pathValue :: "ProcedurePath \<Rightarrow> jsval" where
  "pathValue p = JArr (map JStr p)"

text \<open>
  \<open>MockCallRecord\<close>. The path is the runtime value that reached \<open>executeCall\<close>: \<open>exec\<close>
  passes its argument on after an unchecked cast.
\<close>

record MockCallRecord =
  path :: jsval
  input :: jsval
  timestamp :: nat

text \<open>
  \<open>MockResponse\<close>: all three properties are optional. An absent \<open>output\<close> reads as
  \<open>undefined\<close>; \<open>error\<close> is an \<open>Error\<close> or absent; \<open>delay\<close> is a number or absent.
\<close>

record MockResponse =
  output' :: jsval
  error :: "js_error option"
  delay :: "int option"

text \<open>
  What a closure that holds the client can read of it while it runs: the call log, as
  \<open>getCalls()\<close> returns it, and the argument histories \<open>call.mock.calls\<close> and
  \<open>exec.mock.calls\<close> of the two spies.
\<close>

record client_view =
  seen_calls :: "MockCallRecord list"
  seen_call_args :: "(jsval \<times> jsval) list"
  seen_exec_args :: "(jsval \<times> jsval) list"

text \<open>
  A user-supplied implementation is a closure: it is given the input, it can read the
  client it is registered with, and it returns a value or raises. An implementation
  that changes the client or invokes it again while it runs is outside this model.
\<close>

type_synonym implementation = "jsval \<Rightarrow> client_view \<Rightarrow> js_error + jsval"

record CreateMockClientOptions =
  opt_defaultResponse :: "MockResponse option"
  opt_recordCalls :: "bool option"

text \<open>
  The state behind one mock client: the constants and tables closed over by
  \<open>createMockClient\<close>, the argument histories of the two \<open>vi.fn\<close> spies
  (\<open>mock.calls\<close> of the \<open>MockFn\<close> interface), and the store of the objects the client
  shares with its caller. Arrays of call records live in \<open>arrays\<close>, the record objects
  themselves in \<open>objects\<close>; \<open>calls\<close> is the address of the client's own array.
  Fresh addresses are taken from \<open>nextArray\<close> and \<open>nextObject\<close>.
\<close>

record mock_state =
  defaultResponse :: MockResponse
  recordCalls :: bool
  calls :: addr
  responses :: "string \<rightharpoonup> MockResponse"
  implementations :: "string \<rightharpoonup> implementation"
  callMock :: "(jsval \<times> jsval) list"
  execMock :: "(jsval \<times> jsval) list"
  arrays :: "addr \<rightharpoonup> addr list"
  objects :: "addr \<rightharpoonup> MockCallRecord"
  nextArray :: addr
  nextObject :: addr

text \<open>The outcome of an invocation: the settled promise, and the timer it waited for.\<close>

record call_outcome =
  result :: "js_error + jsval"
  waited :: "int option"

definition array_contents :: "mock_state \<Rightarrow> addr \<Rightarrow> addr list" where
  "array_contents st a = (case arrays st a of Some xs \<Rightarrow> xs | None \<Rightarrow> [])"

text \<open>Reading an array of call records through the store.\<close>

definition read_array :: "mock_state \<Rightarrow> addr \<Rightarrow> MockCallRecord list" where
  "read_array st a = List.map_filter (objects st) (array_contents st a)"

text \<open>The live call log: the records of the client's own array.\<close>

definition call_log :: "mock_state \<Rightarrow> MockCallRecord list" where
  "call_log st = read_array st (calls st)"

text \<open>The client as a closure sees it.\<close>

definition view :: "mock_state \<Rightarrow> client_view" where
  "view st =
     \<lparr>seen_calls = call_log st, seen_call_args = callMock st, seen_exec_args = execMock st\<rparr>"

section \<open>The mock client\<close>

definition emptyResponse :: MockResponse where
  "emptyResponse = \<lparr>output' = JUndefined, error = None, delay = None\<rparr>"

definition createMockClient :: "CreateMockClientOptions \<Rightarrow> mock_state" where
  "createMockClient options =
     \<lparr>defaultResponse =
        (case opt_defaultResponse options of None \<Rightarrow> emptyResponse | Some r \<Rightarrow> r),
      recordCalls = (case opt_recordCalls options of None \<Rightarrow> True | Some b \<Rightarrow> b),
      calls = 0,
      responses = Map.empty,
      implementations = Map.empty,
      callMock = [],
      execMock = [],
      arrays = [0 \<mapsto> []],
      objects = Map.empty,
      nextArray = 1,
      nextObject = 0\<rparr>"

text \<open>\<open>pathToKey\<close>, on the elements of the array it is given.\<close>

definition pathToKey :: "jsval list \<Rightarrow> string" where
  "pathToKey p = join ''.'' (map joinElement p)"

text \<open>\<open>calls.push({ path, input, timestamp })\<close>: a new record object, appended.\<close>

definition push_call :: "mock_state \<Rightarrow> MockCallRecord \<Rightarrow> mock_state" where
  "push_call st c =
     st\<lparr>objects := (objects st)(nextObject st \<mapsto> c),
        nextObject := Suc (nextObject st),
        arrays := (arrays st)(calls st \<mapsto> array_contents st (calls st) @ [nextObject st])\<rparr>"

text \<open>
  \<open>executeCall\<close>. \<open>now\<close> is the value of \<open>Date.now()\<close>. A path that is not an array has
  no \<open>join\<close> method, so \<open>pathToKey\<close> raises a \<open>TypeError\<close> there, after the record was
  pushed. An implementation runs after the push and sees the client as it is then.
\<close>

definition executeCall ::
  "mock_state \<Rightarrow> jsval \<Rightarrow> jsval \<Rightarrow> nat \<Rightarrow> call_outcome \<times> mock_state" where
  "executeCall st p i now =
     (let st' = (if recordCalls st
                 then push_call st \<lparr>path = p, input = i, timestamp = now\<rparr> else st)
      in case p of
           JArr segments \<Rightarrow>
             (let key = pathToKey segments in
              case implementations st' key of
                Some impl \<Rightarrow> (\<lparr>result = impl i (view st'), waited = None\<rparr>, st')
              | None \<Rightarrow>
                 (let response =
                        (case responses st' key of Some r \<Rightarrow> r | None \<Rightarrow> defaultResponse st')
                  in (\<lparr>result = (case error response of
                                    Some e \<Rightarrow> Inl e
                                  | None \<Rightarrow> Inr (output' response)),
                        waited = (case delay response of
                                    Some d \<Rightarrow> if d \<noteq> 0 then Some d else None
                                  | None \<Rightarrow> None)\<rparr>, st')))
         | _ \<Rightarrow> (\<lparr>result = Inl (TypeError ''path.join is not a function''), waited = None\<rparr>, st'))"

text \<open>\<open>call\<close> is \<open>vi.fn(executeCall)\<close>: the spy notes the arguments, then runs it.\<close>

definition call ::
  "mock_state \<Rightarrow> ProcedurePath \<Rightarrow> jsval \<Rightarrow> nat \<Rightarrow> call_outcome \<times> mock_state" where
  "call st p i now =
     executeCall (st\<lparr>callMock := callMock st @ [(pathValue p, i)]\<rparr>) (pathValue p) i now"

text \<open>The address a reference object carries: \<open>ref.$proc ?? ref.path\<close>.\<close>

definition refPath :: "jsval \<Rightarrow> jsval" where
  "refPath ref = nullish_coalesce (getField ref ''$proc'') (getField ref ''path'')"

definition invalidReference :: call_outcome where
  "invalidReference = \<lparr>result = Inl (Error ''Invalid procedure reference''), waited = None\<rparr>"

text \<open>\<open>exec\<close>: the spy notes the arguments; an omitted second argument is \<open>undefined\<close>.\<close>

definition exec ::
  "mock_state \<Rightarrow> jsval \<Rightarrow> jsval \<Rightarrow> nat \<Rightarrow> call_outcome \<times> mock_state" where
  "exec st refOrPath i now =
     (let st' = st\<lparr>execMock := execMock st @ [(refOrPath, i)]\<rparr>
      in if isArray refOrPath then executeCall st' refOrPath i now
         else if isObject refOrPath \<and> truthy (refPath refOrPath)
         then executeCall st' (refPath refOrPath)
                (nullish_coalesce (getField refOrPath ''input'') i) now
         else (invalidReference, st'))"

text \<open>\<open>getCalls\<close>: \<open>[...calls]\<close> is a new array with the same elements.\<close>

definition getCalls :: "mock_state \<Rightarrow> addr \<times> mock_state" where
  "getCalls st =
     (nextArray st,
      st\<lparr>arrays := (arrays st)(nextArray st \<mapsto> array_contents st (calls st)),
         nextArray := Suc (nextArray st)\<rparr>)"

text \<open>
  The callback of the filter in \<open>getCallsFor\<close>:
  \<open>c => pathToKey(c.path) === pathToKey(path)\<close>. Computing the key of a recorded path
  that is not an array raises.
\<close>

definition matchesPath :: "MockCallRecord \<Rightarrow> ProcedurePath \<Rightarrow> js_error + bool" where
  "matchesPath c p =
     (case path c of
        JArr segments \<Rightarrow> Inr (pathToKey segments = pathToKey (map JStr p))
      | _ \<Rightarrow> Inl (TypeError ''path.join is not a function''))"

text \<open>\<open>calls.filter(...)\<close>: the elements the callback accepts, in order.\<close>

fun filterCalls :: "mock_state \<Rightarrow> ProcedurePath \<Rightarrow> addr list \<Rightarrow> js_error + addr list" where
  "filterCalls st p [] = Inr []"
| "filterCalls st p (r # rs) =
     (case objects st r of
        None \<Rightarrow> Inl (TypeError ''Cannot read properties of undefined'')
      | Some c \<Rightarrow>
         (case matchesPath c p of
            Inl e \<Rightarrow> Inl e
          | Inr keep \<Rightarrow>
             (case filterCalls st p rs of
                Inl e \<Rightarrow> Inl e
              | Inr kept \<Rightarrow> Inr (if keep then r # kept else kept))))"

definition getCallsFor :: "mock_state \<Rightarrow> ProcedurePath \<Rightarrow> (js_error + addr) \<times> mock_state" where
  "getCallsFor st p =
     (case filterCalls st p (array_contents st (calls st)) of
        Inl e \<Rightarrow> (Inl e, st)
      | Inr kept \<Rightarrow>
          (Inr (nextArray st),
           st\<lparr>arrays := (arrays st)(nextArray st \<mapsto> kept), nextArray := Suc (nextArray st)\<rparr>))"

text \<open>\<open>clearCalls\<close>: \<open>calls.length = 0\<close> empties the client's own array in place.\<close>

definition clearCalls :: "mock_state \<Rightarrow> mock_state" where
  "clearCalls st = st\<lparr>arrays := (arrays st)(calls st \<mapsto> [])\<rparr>"

definition mockResponse :: "mock_state \<Rightarrow> ProcedurePath \<Rightarrow> MockResponse \<Rightarrow> mock_state" where
  "mockResponse st p response =
     st\<lparr>responses := (responses st)(pathToKey (map JStr p) \<mapsto> response)\<rparr>"

definition mockImplementation ::
  "mock_state \<Rightarrow> ProcedurePath \<Rightarrow> implementation \<Rightarrow> mock_state" where
  "mockImplementation st p impl =
     st\<lparr>implementations := (implementations st)(pathToKey (map JStr p) \<mapsto> impl)\<rparr>"

text \<open>\<open>reset\<close>; \<open>mockClear\<close> empties a spy's argument history.\<close>

definition reset :: "mock_state \<Rightarrow> mock_state" where
  "reset st =
     st\<lparr>arrays := (arrays st)(calls st \<mapsto> []),
        responses := Map.empty,
        implementations := Map.empty,
        callMock := [],
        execMock := []\<rparr>"

text \<open>The response helpers.\<close>

definition mockOutput :: "jsval \<Rightarrow> MockResponse" where
  "mockOutput v = \<lparr>output' = v, error = None, delay = None\<rparr>"

text \<open>\<open>mockError\<close> takes an \<open>Error\<close> (\<open>Inl\<close>) or the message of a new one (\<open>Inr\<close>).\<close>

definition mockError :: "js_error + string \<Rightarrow> MockResponse" where
  "mockError e =
     \<lparr>output' = JUndefined,
      error = Some (case e of Inl err \<Rightarrow> err | Inr msg \<Rightarrow> Error msg),
      delay = None\<rparr>"

definition mockDelayed :: "jsval \<Rightarrow> int \<Rightarrow> MockResponse" where
  "mockDelayed v delayMs = \<lparr>output' = v, error = None, delay = Some delayMs\<rparr>"

section \<open>What a caller can do and see\<close>

text \<open>
  A caller holding an array returned by the client can change its elements in any way
  (assign, push, splice, truncate): the array object gets new contents. A caller holding
  a record object can assign to its properties: the object gets new property values.
\<close>

definition array_write :: "mock_state \<Rightarrow> addr \<Rightarrow> addr list \<Rightarrow> mock_state" where
  "array_write st a xs = st\<lparr>arrays := (arrays st)(a \<mapsto> xs)\<rparr>"

definition object_write :: "mock_state \<Rightarrow> addr \<Rightarrow> MockCallRecord \<Rightarrow> mock_state" where
  "object_write st r c = st\<lparr>objects := (objects st)(r \<mapsto> c)\<rparr>"

text \<open>
  The store is well formed when the client's own array was allocated before
  \<open>nextArray\<close> and every element of it is an allocated record object.
\<close>

definition wf :: "mock_state \<Rightarrow> bool" where
  "wf st \<longleftrightarrow>
     calls st < nextArray st \<and>
     list_all (\<lambda>r. r < nextObject st \<and> objects st r \<noteq> None) (array_contents st (calls st))"

text \<open>An address whose segments are free of the separator of \<open>pathToKey\<close>.\<close>

definition dotFree :: "ProcedurePath \<Rightarrow> bool" where
  "dotFree p = list_all (\<lambda>s. CHR ''.'' \<notin> set s) p"

text \<open>
  A plain address: separator-free segments, and not the address of one empty segment
  (whose key is that of the empty address).
\<close>

definition plainPath :: "ProcedurePath \<Rightarrow> bool" where
  "plainPath p \<longleftrightarrow> dotFree p \<and> p \<noteq> [[]]"

text \<open>
  Two states with the same registries, the same default response and the same spy
  histories: they may differ in the recording flag and in the store.
\<close>

definition same_client :: "mock_state \<Rightarrow> mock_state \<Rightarrow> bool" where
  "same_client s t \<longleftrightarrow>
     responses s = responses t \<and> implementations s = implementations t \<and>
     defaultResponse s = defaultResponse t \<and> callMock s = callMock t \<and> execMock s = execMock t"

text \<open>
  An implementation that does not read the call log: what it gives does not depend on
  the log it is shown.
\<close>

definition log_blind :: "implementation \<Rightarrow> bool" where
  "log_blind f \<longleftrightarrow> (\<forall>i v l. f i (v\<lparr>seen_calls := l\<rparr>) = f i v)"

definition blind_table :: "mock_state \<Rightarrow> bool" where
  "blind_table st \<longleftrightarrow> (\<forall>k f. implementations st k = Some f \<longrightarrow> log_blind f)"

text \<open>
  The array at \<open>a\<close> is a snapshot reading as \<open>L\<close>: it is an allocated array other than
  the client's own, its elements are allocated record objects, and it reads as \<open>L\<close>.
\<close>

definition holds_snapshot :: "addr \<Rightarrow> MockCallRecord list \<Rightarrow> mock_state \<Rightarrow> bool" where
  "holds_snapshot a L s \<longleftrightarrow>
     a < nextArray s \<and> a \<noteq> calls s \<and>
     list_all (\<lambda>r. r < nextObject s) (array_contents s a) \<and> read_array s a = L"

text \<open>A client that does not record: the flag is off and its own array is empty.\<close>

definition recording_off :: "mock_state \<Rightarrow> bool" where
  "recording_off st \<longleftrightarrow>
     \<not> recordCalls st \<and> calls st < nextArray st \<and> array_contents st (calls st) = []"

text \<open>
  What the client's interface lets a caller observe of the engine: the call log, the two
  registries, the two spy histories and the two construction-time settings.
\<close>

definition engine_view ::
  "mock_state \<Rightarrow>
     MockCallRecord list \<times> (string \<rightharpoonup> MockResponse) \<times> (string \<rightharpoonup> implementation) \<times>
     (jsval \<times> jsval) list \<times> (jsval \<times> jsval) list \<times> MockResponse \<times> bool" where
  "engine_view st =
     (call_log st, responses st, implementations st, callMock st, execMock st,
      defaultResponse st, recordCalls st)"

text \<open>A test drives the client through a sequence of its operations.\<close>

datatype operation =
    Call ProcedurePath jsval nat
  | Exec jsval jsval nat
  | GetCalls
  | GetCallsFor ProcedurePath
  | ClearCalls
  | SetResponse ProcedurePath MockResponse
  | SetImplementation ProcedurePath implementation
  | Reset

text \<open>One operation: the outcome of an invocation, if it is one, and the next state.\<close>

fun step :: "operation \<Rightarrow> mock_state \<Rightarrow> call_outcome option \<times> mock_state" where
  "step (Call p i now) st = (let (out, st') = call st p i now in (Some out, st'))"
| "step (Exec ref i now) st = (let (out, st') = exec st ref i now in (Some out, st'))"
| "step GetCalls st = (None, snd (getCalls st))"
| "step (GetCallsFor p) st = (None, snd (getCallsFor st p))"
| "step ClearCalls st = (None, clearCalls st)"
| "step (SetResponse p r) st = (None, mockResponse st p r)"
| "step (SetImplementation p f) st = (None, mockImplementation st p f)"
| "step Reset st = (None, reset st)"

text \<open>A run: the outcomes of its invocations in order, and the final state.\<close>

fun run :: "operation list \<Rightarrow> mock_state \<Rightarrow> call_outcome list \<times> mock_state" where
  "run [] st = ([], st)"
| "run (x # xs) st =
     (let (out, st') = step x st; (outs, st'') = run xs st'
      in ((case out of None \<Rightarrow> outs | Some v \<Rightarrow> v # outs), st''))"

text \<open>An operation that registers no implementation that reads the call log.\<close>

fun blind_op :: "operation \<Rightarrow> bool" where
  "blind_op (SetImplementation p f) = log_blind f"
| "blind_op x = True"

section \<open>Keys and addresses\<close>

lemma joinElement_JStr [simp]: "joinElement (JStr s) = s"
  by (simp add: joinElement_def)

lemma pathToKey_typed: "pathToKey (map JStr p) = join ''.'' p"
  by (simp add: pathToKey_def comp_def)

text \<open>Elements that are not strings: \<open>[1, null, [-2, "x"], {}].join(".")\<close>.\<close>

lemma pathToKey_mixed:
  "pathToKey [JNum 1, JNull, JArr [JNum (- 2), JStr ''x''], JObj []] = ''1..-2,x.[object Object]''"
  by (simp add: pathToKey_def joinElement_def natToString.simps)

lemma takeWhile_segment:
  "CHR ''.'' \<notin> set a \<Longrightarrow> takeWhile (\<lambda>c. c \<noteq> CHR ''.'') (a @ CHR ''.'' # r) = a"
  by (induction a) auto

lemma takeWhile_last_segment:
  "CHR ''.'' \<notin> set a \<Longrightarrow> takeWhile (\<lambda>c. c \<noteq> CHR ''.'') a = a"
  by (induction a) auto

lemma join_first_segment:
  "dotFree (x # xs) \<Longrightarrow> takeWhile (\<lambda>c. c \<noteq> CHR ''.'') (join ''.'' (x # xs)) = x"
  by (cases xs) (auto simp: dotFree_def takeWhile_segment takeWhile_last_segment)

lemma join_eq_Nil: "join ''.'' xs = [] \<longleftrightarrow> xs = [] \<or> xs = [[]]"
  by (induction "''.''" xs rule: join.induct) auto

lemma join_inj_nonempty:
  "dotFree xs \<Longrightarrow> dotFree ys \<Longrightarrow> xs \<noteq> [] \<Longrightarrow> ys \<noteq> [] \<Longrightarrow>
   join ''.'' xs = join ''.'' ys \<Longrightarrow> xs = ys"
proof (induction xs arbitrary: ys)
  case Nil
  then show ?case by simp
next
  case (Cons x xs)
  then obtain y ys' where ys: "ys = y # ys'" by (cases ys) auto
  have xy: "x = y"
    using join_first_segment [OF Cons.prems(1)] join_first_segment [of y ys'] Cons.prems ys
    by simp
  show ?case
  proof (cases xs)
    case Nil
    then show ?thesis using Cons.prems ys xy by (cases ys') auto
  next
    case xs: (Cons a as)
    show ?thesis
    proof (cases ys')
      case Nil
      then show ?thesis using Cons.prems ys xy xs by auto
    next
      case (Cons b bs)
      have "join ''.'' xs = join ''.'' ys'"
        using \<open>join ''.'' (x # xs) = join ''.'' ys\<close> ys xy xs Cons by simp
      moreover have "dotFree xs" "dotFree ys'"
        using \<open>dotFree (x # xs)\<close> \<open>dotFree ys\<close> ys by (auto simp: dotFree_def)
      ultimately have "xs = ys'" using Cons.IH xs Cons by blast
      then show ?thesis using xy ys by simp
    qed
  qed
qed

text \<open>
  On addresses with separator-free segments the key determines the address, but for the
  empty address and the address of one empty segment, which both have the empty key.
\<close>

lemma join_inj:
  assumes "dotFree xs" "dotFree ys" "join ''.'' xs = join ''.'' ys"
  shows "xs = ys \<or> (xs = [] \<and> ys = [[]]) \<or> (xs = [[]] \<and> ys = [])"
proof (cases "xs = [] \<or> ys = []")
  case True
  then show ?thesis using assms(3) join_eq_Nil [of xs] join_eq_Nil [of ys] by auto
next
  case False
  then show ?thesis using join_inj_nonempty assms by blast
qed



section \<open>C1: keys of different addresses\<close>




section \<open>The store\<close>

lemma map_filter_append:
  "List.map_filter f (xs @ ys) = List.map_filter f xs @ List.map_filter f ys"
  by (simp add: List.map_filter_def)

lemma map_filter_fresh:
  "r \<notin> set xs \<Longrightarrow> List.map_filter (m(r \<mapsto> c)) xs = List.map_filter m xs"
  by (induction xs) (auto simp: List.map_filter_def)

lemma map_filter_filter:
  "List.map_filter m (filter (\<lambda>r. \<exists>c. m r = Some c \<and> P c) rs) = filter P (List.map_filter m rs)"
  by (induction rs) (auto split: option.splits)

lemma list_all_map_filter:
  "list_all (\<lambda>r. m r \<noteq> None) rs \<Longrightarrow> list_all P (List.map_filter m rs) \<Longrightarrow>
   list_all (\<lambda>r. \<exists>c. m r = Some c \<and> P c) rs"
  by (induction rs) (auto split: option.splits)

lemma wf_createMockClient: "wf (createMockClient options)"
  by (simp add: wf_def createMockClient_def array_contents_def)

lemma wf_callMock [simp]: "wf (st\<lparr>callMock := h\<rparr>) = wf st"
  by (simp add: wf_def array_contents_def)

lemma wf_execMock [simp]: "wf (st\<lparr>execMock := h\<rparr>) = wf st"
  by (simp add: wf_def array_contents_def)

lemma call_log_callMock [simp]: "call_log (st\<lparr>callMock := h\<rparr>) = call_log st"
  by (simp add: call_log_def read_array_def array_contents_def)

lemma call_log_execMock [simp]: "call_log (st\<lparr>execMock := h\<rparr>) = call_log st"
  by (simp add: call_log_def read_array_def array_contents_def)

lemma wf_implementations [simp]: "wf (st\<lparr>implementations := m\<rparr>) = wf st"
  by (simp add: wf_def array_contents_def)

lemma wf_responses [simp]: "wf (st\<lparr>responses := m\<rparr>) = wf st"
  by (simp add: wf_def array_contents_def)

lemma call_log_implementations [simp]:
  "call_log (st\<lparr>implementations := m\<rparr>) = call_log st"
  by (simp add: call_log_def read_array_def array_contents_def)

lemma call_log_responses [simp]: "call_log (st\<lparr>responses := m\<rparr>) = call_log st"
  by (simp add: call_log_def read_array_def array_contents_def)

lemma push_call_fields [simp]:
  "calls (push_call s c) = calls s"
  "recordCalls (push_call s c) = recordCalls s"
  "responses (push_call s c) = responses s"
  "implementations (push_call s c) = implementations s"
  "defaultResponse (push_call s c) = defaultResponse s"
  "callMock (push_call s c) = callMock s"
  "execMock (push_call s c) = execMock s"
  "nextArray (push_call s c) = nextArray s"
  by (simp_all add: push_call_def)

lemma array_write_fields [simp]:
  "calls (array_write s a ys) = calls s"
  "recordCalls (array_write s a ys) = recordCalls s"
  "responses (array_write s a ys) = responses s"
  "implementations (array_write s a ys) = implementations s"
  "defaultResponse (array_write s a ys) = defaultResponse s"
  "callMock (array_write s a ys) = callMock s"
  "execMock (array_write s a ys) = execMock s"
  "nextArray (array_write s a ys) = nextArray s"
  by (simp_all add: array_write_def)

text \<open>A push appends the new record and leaves the records before it as they were.\<close>

lemma call_log_push_call:
  assumes "wf st"
  shows "call_log (push_call st c) = call_log st @ [c]"
proof -
  have "nextObject st \<notin> set (array_contents st (calls st))"
    using assms by (auto simp: wf_def list_all_iff)
  then show ?thesis
    by (simp add: call_log_def read_array_def push_call_def array_contents_def
        map_filter_append map_filter_fresh)
qed

lemma wf_push_call: "wf st \<Longrightarrow> wf (push_call st c)"
  by (auto simp: wf_def push_call_def array_contents_def list_all_iff)

lemma view_push_call:
  "wf st \<Longrightarrow> view (push_call st c) =
     \<lparr>seen_calls = call_log st @ [c], seen_call_args = callMock st,
      seen_exec_args = execMock st\<rparr>"
  by (simp add: view_def call_log_push_call)

lemma snd_executeCall:
  "snd (executeCall st p i now) =
     (if recordCalls st then push_call st \<lparr>path = p, input = i, timestamp = now\<rparr> else st)"
  by (simp add: executeCall_def Let_def split: jsval.splits option.splits)

lemma call_log_getCalls: "wf st \<Longrightarrow> call_log (snd (getCalls st)) = call_log st"
  by (simp add: wf_def getCalls_def call_log_def read_array_def array_contents_def)

lemma read_getCalls: "read_array (snd (getCalls st)) (fst (getCalls st)) = call_log st"
  by (simp add: getCalls_def call_log_def read_array_def array_contents_def)

lemma read_array_push_call:
  assumes "wf st" "a \<noteq> calls st" "array_contents st a = array_contents st (calls st)"
  shows "read_array (push_call st c) a = call_log st"
proof -
  have "nextObject st \<notin> set (array_contents st (calls st))"
    using assms(1) by (auto simp: wf_def list_all_iff)
  then show ?thesis using assms(2,3)
    by (simp add: read_array_def call_log_def push_call_def array_contents_def map_filter_fresh)
qed

text \<open>Every operation of the client keeps the store well formed, and so does a caller.\<close>

lemma wf_getCalls: "wf st \<Longrightarrow> wf (snd (getCalls st))"
  by (simp add: wf_def getCalls_def array_contents_def)

lemma wf_step:
  assumes "wf st"
  shows "wf (snd (step x st))"
proof (cases x)
  case (Call p i now)
  then show ?thesis using assms
    by (simp add: call_def split_beta snd_executeCall wf_push_call)
next
  case (Exec ref i now)
  then show ?thesis using assms
    by (simp add: exec_def split_beta snd_executeCall wf_push_call Let_def)
next
  case GetCalls
  then show ?thesis using assms by (simp add: wf_getCalls)
next
  case (GetCallsFor p)
  then show ?thesis using assms
    by (simp add: wf_def getCallsFor_def array_contents_def split: sum.splits)
next
  case ClearCalls
  then show ?thesis using assms by (simp add: wf_def clearCalls_def array_contents_def)
next
  case (SetResponse p r)
  then show ?thesis using assms by (simp add: wf_def mockResponse_def array_contents_def)
next
  case (SetImplementation p f)
  then show ?thesis using assms
    by (simp add: wf_def mockImplementation_def array_contents_def)
next
  case Reset
  then show ?thesis using assms by (simp add: wf_def reset_def array_contents_def)
qed

lemma wf_run: "wf st \<Longrightarrow> wf (snd (run xs st))"
proof (induction xs arbitrary: st)
  case Nil
  then show ?case by simp
next
  case (Cons x xs)
  from Cons.IH [OF wf_step [OF Cons.prems, of x]] show ?case by (simp add: split_beta)
qed

lemma wf_reachable: "wf (snd (run xs (createMockClient options)))"
  by (rule wf_run [OF wf_createMockClient])

lemma wf_object_write: "wf st \<Longrightarrow> wf (object_write st r c)"
  by (auto simp: wf_def object_write_def array_contents_def list_all_iff)

lemma wf_array_write:
  "wf st \<Longrightarrow> a \<noteq> calls st \<Longrightarrow> a < nextArray st \<Longrightarrow> wf (array_write st a xs)"
  by (auto simp: wf_def array_write_def array_contents_def list_all_iff)

section \<open>C2: the calls of one address\<close>

lemma filterCalls_arrays:
  assumes "list_all (\<lambda>r. \<exists>c. objects st r = Some c \<and> isArray (path c)) rs"
  shows "filterCalls st p rs =
     Inr (filter (\<lambda>r. \<exists>c. objects st r = Some c \<and> matchesPath c p = Inr True) rs)"
  using assms
proof (induction rs)
  case Nil
  then show ?case by simp
next
  case (Cons r rs)
  then obtain c where c: "objects st r = Some c" "isArray (path c)" by auto
  then obtain segs where "path c = JArr segs" by (cases "path c") auto
  then show ?case using Cons c by (auto simp: matchesPath_def)
qed

lemma getCallsFor_keys:
  assumes "wf st" "list_all (\<lambda>c. isArray (path c)) (call_log st)"
  shows "fst (getCallsFor st A) = Inr (nextArray st)"
    and "read_array (snd (getCallsFor st A)) (nextArray st) =
           filter (\<lambda>c. matchesPath c A = Inr True) (call_log st)"
proof -
  have "list_all (\<lambda>r. objects st r \<noteq> None) (array_contents st (calls st))"
    using assms(1) by (auto simp: wf_def list_all_iff)
  then have "list_all (\<lambda>r. \<exists>c. objects st r = Some c \<and> isArray (path c))
               (array_contents st (calls st))"
    using assms(2) by (simp add: call_log_def read_array_def list_all_map_filter)
  then have f: "filterCalls st A (array_contents st (calls st)) =
     Inr (filter (\<lambda>r. \<exists>c. objects st r = Some c \<and> matchesPath c A = Inr True)
            (array_contents st (calls st)))"
    by (rule filterCalls_arrays)
  show "fst (getCallsFor st A) = Inr (nextArray st)"
    by (simp add: getCallsFor_def f)
  show "read_array (snd (getCallsFor st A)) (nextArray st) =
           filter (\<lambda>c. matchesPath c A = Inr True) (call_log st)"
  proof -
    have "snd (getCallsFor st A) =
        st\<lparr>arrays := (arrays st)(nextArray st \<mapsto>
              filter (\<lambda>r. \<exists>c. objects st r = Some c \<and> matchesPath c A = Inr True)
                (array_contents st (calls st))),
           nextArray := Suc (nextArray st)\<rparr>"
      by (simp add: getCallsFor_def f)
    then show ?thesis
      by (simp add: read_array_def call_log_def map_filter_filter array_contents_def)
  qed
qed

lemma pathValue_inj: "pathValue p = pathValue q \<longleftrightarrow> p = q"
  by (auto simp: pathValue_def inj_on_def dest!: map_inj_on [where f = JStr])

lemma matchesPath_plain:
  assumes "plainPath p" "plainPath A" "path c = pathValue p"
  shows "matchesPath c A = Inr True \<longleftrightarrow> path c = pathValue A"
proof -
  have "pathToKey (map JStr p) = pathToKey (map JStr A) \<longleftrightarrow> p = A"
    using assms(1,2) join_inj [of p A] by (auto simp: plainPath_def pathToKey_typed)
  moreover have "matchesPath c A = Inr (pathToKey (map JStr p) = pathToKey (map JStr A))"
    using assms(3) by (simp add: matchesPath_def pathValue_def)
  ultimately show ?thesis using assms(3) by (simp add: pathValue_inj)
qed

text \<open>
  A reference object whose \<open>$proc\<close> is a string reaches \<open>executeCall\<close>: the record is
  pushed with that string as its path, the call fails in \<open>pathToKey\<close>, and from then on
  \<open>getCallsFor\<close> raises on the record. The properties of \<open>getCallsFor\<close> below are about
  logs whose recorded paths are arrays.
\<close>

lemma getCallsFor_raises:
  "fst (exec (createMockClient \<lparr>opt_defaultResponse = None, opt_recordCalls = None\<rparr>)
      (JObj [(''$proc'', JStr ''fs.read'')]) JNull 0)
     = \<lparr>result = Inl (TypeError ''path.join is not a function''), waited = None\<rparr> \<and>
   call_log (snd (exec (createMockClient \<lparr>opt_defaultResponse = None, opt_recordCalls = None\<rparr>)
      (JObj [(''$proc'', JStr ''fs.read'')]) JNull 0))
     = [\<lparr>path = JStr ''fs.read'', input = JNull, timestamp = 0\<rparr>] \<and>
   fst (getCallsFor
     (snd (exec (createMockClient \<lparr>opt_defaultResponse = None, opt_recordCalls = None\<rparr>)
        (JObj [(''$proc'', JStr ''fs.read'')]) JNull 0)) [''fs'', ''read''])
     = Inl (TypeError ''path.join is not a function'')"
  by (simp add: exec_def refPath_def nullish_coalesce_def executeCall_def push_call_def
      createMockClient_def getCallsFor_def matchesPath_def call_log_def read_array_def
      array_contents_def Let_def)

text \<open>
  C2, as stated, fails: after one call of \<open>["a.b"]\<close>, \<open>getCallsFor(["a", "b"])\<close> returns
  the record of that call, whose path is a different segment sequence.
\<close>

theorem getCallsFor_other_path:
  "pathValue [''a.b''] \<noteq> pathValue [''a'', ''b''] \<and>
   fst (getCallsFor
     (snd (call (createMockClient \<lparr>opt_defaultResponse = None, opt_recordCalls = None\<rparr>)
        [''a.b''] JNull 0)) [''a'', ''b'']) = Inr 1 \<and>
   read_array (snd (getCallsFor
     (snd (call (createMockClient \<lparr>opt_defaultResponse = None, opt_recordCalls = None\<rparr>)
        [''a.b''] JNull 0)) [''a'', ''b''])) 1
     = [\<lparr>path = pathValue [''a.b''], input = JNull, timestamp = 0\<rparr>]"
  by (simp add: pathValue_def call_def executeCall_def push_call_def createMockClient_def
      getCallsFor_def matchesPath_def pathToKey_def array_contents_def read_array_def Let_def)

text \<open>
  C2, amended: in a log all of whose recorded paths are arrays, \<open>getCalls()\<close> returns the
  log and \<open>getCallsFor(A)\<close> returns, in log order, exactly the records whose key
  \<open>pathToKey(path)\<close> is the key of \<open>A\<close>. When \<open>A\<close> and every recorded address are plain
  (no \<open>.\<close> in a segment, not the address of one empty segment), these are exactly the
  records whose path is \<open>A\<close>, segment by segment.
\<close>

theorem getCallsFor_same_key:
  assumes "wf st" "list_all (\<lambda>c. isArray (path c)) (call_log st)"
  shows "read_array (snd (getCalls st)) (fst (getCalls st)) = call_log st \<and>
         fst (getCallsFor st A) = Inr (nextArray st) \<and>
         read_array (snd (getCallsFor st A)) (nextArray st) =
           filter (\<lambda>c. matchesPath c A = Inr True) (call_log st) \<and>
         (plainPath A \<and> list_all plainPath ps \<and> map path (call_log st) = map pathValue ps \<longrightarrow>
          read_array (snd (getCallsFor st A)) (nextArray st) =
            filter (\<lambda>c. path c = pathValue A) (call_log st))"
proof -
  note k = getCallsFor_keys [OF assms]
  have "filter (\<lambda>c. matchesPath c A = Inr True) (call_log st) =
        filter (\<lambda>c. path c = pathValue A) (call_log st)"
    if A: "plainPath A" and ps: "list_all plainPath ps"
      and m: "map path (call_log st) = map pathValue ps"
  proof (rule filter_cong [OF refl])
    fix c assume "c \<in> set (call_log st)"
    then have "path c \<in> set (map pathValue ps)" using m [symmetric] by simp
    then obtain p where "p \<in> set ps" "path c = pathValue p" by auto
    then show "(matchesPath c A = Inr True) = (path c = pathValue A)"
      using matchesPath_plain [of p A c] A ps by (simp add: list_all_iff)
  qed
  then show ?thesis using k read_getCalls by simp
qed

text \<open>
  The amended C2 on the log of four calls, at \<open>["fs", "read"]\<close>: the calls of
  \<open>["fs", "readFile"]\<close> and of \<open>["read", "fs"]\<close> are left out.
\<close>

theorem getCallsFor_same_key_witness:
  "wf (snd (run [Call [''fs'', ''read''] (JNum 1) 10, Call [''fs'', ''readFile''] (JNum 2) 11,
                 Call [''read'', ''fs''] (JNum 3) 12, Call [''fs'', ''read''] (JNum 4) 12]
        (createMockClient \<lparr>opt_defaultResponse = None, opt_recordCalls = None\<rparr>))) \<and>
   plainPath [''fs'', ''read''] \<and>
   list_all plainPath [[''fs'', ''read''], [''fs'', ''readFile''], [''read'', ''fs''], [''fs'', ''read'']] \<and>
   read_array (snd (getCallsFor
       (snd (run [Call [''fs'', ''read''] (JNum 1) 10, Call [''fs'', ''readFile''] (JNum 2) 11,
                  Call [''read'', ''fs''] (JNum 3) 12, Call [''fs'', ''read''] (JNum 4) 12]
          (createMockClient \<lparr>opt_defaultResponse = None, opt_recordCalls = None\<rparr>)))
       [''fs'', ''read''])) 1
     = [\<lparr>path = pathValue [''fs'', ''read''], input = JNum 1, timestamp = 10\<rparr>,
        \<lparr>path = pathValue [''fs'', ''read''], input = JNum 4, timestamp = 12\<rparr>]"
  using getCallsFor_same_key
    [of "snd (run [Call [''fs'', ''read''] (JNum 1) 10, Call [''fs'', ''readFile''] (JNum 2) 11,
                   Call [''read'', ''fs''] (JNum 3) 12, Call [''fs'', ''read''] (JNum 4) 12]
          (createMockClient \<lparr>opt_defaultResponse = None, opt_recordCalls = None\<rparr>))"
        "[''fs'', ''read'']"
        "[[''fs'', ''read''], [''fs'', ''readFile''], [''read'', ''fs''], [''fs'', ''read'']]"]
  by (simp add: pathValue_def call_def executeCall_def push_call_def createMockClient_def
      wf_def plainPath_def dotFree_def call_log_def getCalls_def getCallsFor_def matchesPath_def
      pathToKey_def array_contents_def read_array_def Let_def)

section \<open>C3: implementations before responses\<close>

text \<open>
  C3: when an address has both an implementation and a response registered, in either
  order, a call of it gives what the implementation gives on the input (run on the
  client as the call leaves it) and waits for no timer: nothing of the response
  applies. After \<open>reset()\<close>, with only the response registered again, the call resolves
  the response: its error if it has one, else its output, after its delay.
\<close>

theorem implementation_precedence:
  "fst (call (mockImplementation (mockResponse st A r) A f) A i now)
     = \<lparr>result = f i (view (snd (call (mockImplementation (mockResponse st A r) A f) A i now))),
        waited = None\<rparr> \<and>
   fst (call (mockResponse (mockImplementation st A f) A r) A i now)
     = \<lparr>result = f i (view (snd (call (mockResponse (mockImplementation st A f) A r) A i now))),
        waited = None\<rparr> \<and>
   fst (call (mockResponse (reset (mockImplementation (mockResponse st A r) A f)) A r) A i now)
     = \<lparr>result = (case error r of Some e \<Rightarrow> Inl e | None \<Rightarrow> Inr (output' r)),
        waited = (case delay r of Some d \<Rightarrow> if d \<noteq> 0 then Some d else None | None \<Rightarrow> None)\<rparr>"
  by (simp add: call_def executeCall_def pathValue_def mockImplementation_def mockResponse_def
      reset_def push_call_def Let_def)

text \<open>
  C3 at an implementation that doubles a string and a response that would fail after a
  delay: the call returns the doubled string at once; after \<open>reset()\<close> and the response
  alone, it fails after the delay.
\<close>

theorem implementation_precedence_witness:
  "fst (call (mockImplementation
         (mockResponse (createMockClient \<lparr>opt_defaultResponse = None, opt_recordCalls = None\<rparr>)
            [''text'', ''twice'']
            \<lparr>output' = JNum 0, error = Some (Error ''unused''), delay = Some 100\<rparr>)
         [''text'', ''twice'']
         (\<lambda>v w. case v of JStr t \<Rightarrow> Inr (JStr (t @ t)) | _ \<Rightarrow> Inl (TypeError ''not a string'')))
       [''text'', ''twice''] (JStr ''ab'') 0)
     = \<lparr>result = Inr (JStr ''abab''), waited = None\<rparr> \<and>
   fst (call (mockResponse (reset (mockImplementation
         (mockResponse (createMockClient \<lparr>opt_defaultResponse = None, opt_recordCalls = None\<rparr>)
            [''text'', ''twice'']
            \<lparr>output' = JNum 0, error = Some (Error ''unused''), delay = Some 100\<rparr>)
         [''text'', ''twice'']
         (\<lambda>v w. case v of JStr t \<Rightarrow> Inr (JStr (t @ t)) | _ \<Rightarrow> Inl (TypeError ''not a string''))))
         [''text'', ''twice'']
         \<lparr>output' = JNum 0, error = Some (Error ''unused''), delay = Some 100\<rparr>)
       [''text'', ''twice''] (JStr ''ab'') 0)
     = \<lparr>result = Inl (Error ''unused''), waited = Some 100\<rparr>"
  using implementation_precedence
    [of "createMockClient \<lparr>opt_defaultResponse = None, opt_recordCalls = None\<rparr>"
        "[''text'', ''twice'']"
        "\<lparr>output' = JNum 0, error = Some (Error ''unused''), delay = Some 100\<rparr>"
        "\<lambda>v w. case v of JStr t \<Rightarrow> Inr (JStr (t @ t)) | _ \<Rightarrow> Inl (TypeError ''not a string'')"
        "JStr ''ab''" 0]
  by simp

section \<open>C4: an error before an output\<close>

text \<open>
  C4: a response with an error, whatever its output, registered for an address that has
  no implementation: every call of the address fails with that very error and does not
  return the output.
\<close>

theorem error_precedence:
  assumes "implementations st (pathToKey (map JStr A)) = None" "error r = Some e"
  shows "result (fst (call (mockResponse st A r) A i now)) = Inl e \<and>
         result (fst (call (mockResponse st A r) A i now)) \<noteq> Inr (output' r)"
  using assms
  by (simp add: call_def executeCall_def pathValue_def mockResponse_def push_call_def Let_def)

text \<open>C4 at a response with output \<open>"data"\<close> and error \<open>ENOENT\<close>.\<close>

theorem error_precedence_witness:
  "implementations (createMockClient \<lparr>opt_defaultResponse = None, opt_recordCalls = None\<rparr>)
     (pathToKey (map JStr [''fs'', ''read''])) = None \<and>
   result (fst (call (mockResponse
       (createMockClient \<lparr>opt_defaultResponse = None, opt_recordCalls = None\<rparr>) [''fs'', ''read'']
       \<lparr>output' = JStr ''data'', error = Some (Error ''ENOENT''), delay = None\<rparr>)
     [''fs'', ''read''] (JStr ''/a'') 0)) = Inl (Error ''ENOENT'')"
  using error_precedence
    [of "createMockClient \<lparr>opt_defaultResponse = None, opt_recordCalls = None\<rparr>"
        "[''fs'', ''read'']"
        "\<lparr>output' = JStr ''data'', error = Some (Error ''ENOENT''), delay = None\<rparr>"
        "Error ''ENOENT''" "JStr ''/a''" 0]
  by (simp add: createMockClient_def)

section \<open>C5: the input of a reference object\<close>

text \<open>
  C5, as stated, fails: for the reference \<open>{ $proc: ["fs", "read"], input: null }\<close> and
  the second argument \<open>5\<close>, the input recorded and passed on is \<open>5\<close>, not the embedded
  \<open>null\<close>.
\<close>

theorem exec_null_input:
  "getField (JObj [(''$proc'', pathValue [''fs'', ''read'']), (''input'', JNull)]) ''input'' = JNull \<and>
   call_log (snd (exec (createMockClient \<lparr>opt_defaultResponse = None, opt_recordCalls = None\<rparr>)
       (JObj [(''$proc'', pathValue [''fs'', ''read'']), (''input'', JNull)]) (JNum 5) 0))
     = [\<lparr>path = pathValue [''fs'', ''read''], input = JNum 5, timestamp = 0\<rparr>] \<and>
   result (fst (exec (mockImplementation
       (createMockClient \<lparr>opt_defaultResponse = None, opt_recordCalls = None\<rparr>)
       [''fs'', ''read''] (\<lambda>v w. Inr v))
       (JObj [(''$proc'', pathValue [''fs'', ''read'']), (''input'', JNull)]) (JNum 5) 0))
     = Inr (JNum 5)"
  by (simp add: exec_def refPath_def nullish_coalesce_def pathValue_def executeCall_def
      push_call_def createMockClient_def mockImplementation_def pathToKey_def call_log_def
      read_array_def array_contents_def Let_def)

text \<open>
  C5, amended: for a reference object that carries an address (an array under \<open>$proc\<close>,
  or under \<open>path\<close> when \<open>$proc\<close> is \<open>null\<close> or \<open>undefined\<close>) and an \<open>input\<close> property,
  \<open>exec\<close> runs \<open>executeCall\<close> on that address with the embedded input when it is neither
  \<open>null\<close> nor \<open>undefined\<close>, and with the second argument when it is.
\<close>

theorem exec_embedded_input:
  assumes "refPath (JObj fs) = JArr segments" "map_of fs ''input'' = Some v"
  shows "exec st (JObj fs) i now =
           executeCall (st\<lparr>execMock := execMock st @ [(JObj fs, i)]\<rparr>) (JArr segments)
             (if v = JNull \<or> v = JUndefined then i else v) now"
  using assms by (cases v) (simp_all add: exec_def Let_def nullish_coalesce_def)

text \<open>
  The amended C5 at \<open>{ $proc: ["fs", "read"], input: { path: "/a" } }\<close> with no second
  argument: the embedded input is recorded.
\<close>

theorem exec_embedded_input_witness:
  "refPath (JObj [(''$proc'', pathValue [''fs'', ''read'']),
                  (''input'', JObj [(''path'', JStr ''/a'')])]) = JArr [JStr ''fs'', JStr ''read''] \<and>
   map_of [(''$proc'', pathValue [''fs'', ''read'']), (''input'', JObj [(''path'', JStr ''/a'')])]
     ''input'' = Some (JObj [(''path'', JStr ''/a'')]) \<and>
   call_log (snd (exec (createMockClient \<lparr>opt_defaultResponse = None, opt_recordCalls = None\<rparr>)
       (JObj [(''$proc'', pathValue [''fs'', ''read'']),
              (''input'', JObj [(''path'', JStr ''/a'')])]) JUndefined 3))
     = [\<lparr>path = pathValue [''fs'', ''read''], input = JObj [(''path'', JStr ''/a'')],
         timestamp = 3\<rparr>]"
  using exec_embedded_input
    [of "[(''$proc'', pathValue [''fs'', ''read'']), (''input'', JObj [(''path'', JStr ''/a'')])]"
        "[JStr ''fs'', JStr ''read'']" "JObj [(''path'', JStr ''/a'')]"
        "createMockClient \<lparr>opt_defaultResponse = None, opt_recordCalls = None\<rparr>" JUndefined 3]
  by (simp add: refPath_def nullish_coalesce_def pathValue_def executeCall_def
      push_call_def createMockClient_def pathToKey_def call_log_def
      read_array_def array_contents_def Let_def)

section \<open>C6: every call is recorded\<close>

text \<open>
  C6: with call recording enabled, a call appends to the log exactly one record, of the
  address, the input and the time of the call, whatever the call then resolves to, a
  failure included. The record is appended before the behaviour is resolved: an
  implementation registered for the address runs on a client whose log already ends
  with the record of this call.
\<close>

theorem call_recorded:
  assumes "wf st" "recordCalls st"
  shows "call_log (snd (call st A i now)) =
           call_log st @ [\<lparr>path = pathValue A, input = i, timestamp = now\<rparr>] \<and>
         fst (call (mockImplementation st A f) A i now) =
           \<lparr>result = f i \<lparr>seen_calls =
                            call_log st @ [\<lparr>path = pathValue A, input = i, timestamp = now\<rparr>],
                          seen_call_args = callMock st @ [(pathValue A, i)],
                          seen_exec_args = execMock st\<rparr>,
            waited = None\<rparr>"
proof -
  let ?c = "\<lparr>path = pathValue A, input = i, timestamp = now\<rparr>"
  let ?s = "(mockImplementation st A f)\<lparr>callMock := callMock st @ [(pathValue A, i)]\<rparr>"
  have w: "wf ?s" using assms(1) by (simp add: mockImplementation_def)
  have v: "view (push_call ?s ?c) =
     \<lparr>seen_calls = call_log st @ [?c],
      seen_call_args = callMock st @ [(pathValue A, i)], seen_exec_args = execMock st\<rparr>"
    using view_push_call [OF w] by (simp add: mockImplementation_def)
  have "fst (call (mockImplementation st A f) A i now) =
     \<lparr>result = f i (view (push_call ?s ?c)), waited = None\<rparr>"
    using assms(2)
    by (simp add: call_def executeCall_def pathValue_def mockImplementation_def Let_def)
  then show ?thesis
    using assms v by (simp add: call_def snd_executeCall call_log_push_call)
qed

text \<open>
  C6 at a call that fails with the error of its response, and at an implementation
  that raises after counting the log.
\<close>

theorem call_recorded_witness:
  "wf (mockResponse (createMockClient \<lparr>opt_defaultResponse = None, opt_recordCalls = None\<rparr>)
         [''fs'', ''read''] (mockError (Inr ''ENOENT''))) \<and>
   recordCalls (mockResponse (createMockClient \<lparr>opt_defaultResponse = None, opt_recordCalls = None\<rparr>)
         [''fs'', ''read''] (mockError (Inr ''ENOENT''))) \<and>
   result (fst (call (mockResponse (createMockClient \<lparr>opt_defaultResponse = None, opt_recordCalls = None\<rparr>)
         [''fs'', ''read''] (mockError (Inr ''ENOENT''))) [''fs'', ''read''] (JStr ''/a'') 7))
     = Inl (Error ''ENOENT'') \<and>
   call_log (snd (call (mockResponse (createMockClient \<lparr>opt_defaultResponse = None, opt_recordCalls = None\<rparr>)
         [''fs'', ''read''] (mockError (Inr ''ENOENT''))) [''fs'', ''read''] (JStr ''/a'') 7))
     = [\<lparr>path = JArr [JStr ''fs'', JStr ''read''], input = JStr ''/a'', timestamp = 7\<rparr>] \<and>
   result (fst (call (mockImplementation
         (mockResponse (createMockClient \<lparr>opt_defaultResponse = None, opt_recordCalls = None\<rparr>)
            [''fs'', ''read''] (mockError (Inr ''ENOENT'')))
         [''fs'', ''read'']
         (\<lambda>v w. if length (seen_calls w) = 1 then Inl (Error ''seen one'') else Inr JNull))
       [''fs'', ''read''] (JStr ''/a'') 7))
     = Inl (Error ''seen one'')"
  using call_recorded
    [of "mockResponse (createMockClient \<lparr>opt_defaultResponse = None, opt_recordCalls = None\<rparr>)
           [''fs'', ''read''] (mockError (Inr ''ENOENT''))" "[''fs'', ''read'']" "JStr ''/a''" 7
        "\<lambda>v w. if length (seen_calls w) = 1 then Inl (Error ''seen one'') else Inr JNull"]
  by (simp add: wf_def createMockClient_def mockResponse_def mockError_def array_contents_def
      call_log_def read_array_def pathValue_def call_def executeCall_def
      push_call_def pathToKey_def Let_def)

section \<open>C7: malformed references\<close>

lemma refPath_no_address_field:
  "map_of fs ''$proc'' = None \<Longrightarrow> map_of fs ''path'' = None \<Longrightarrow>
   \<not> truthy (refPath (JObj fs))"
  by (simp add: refPath_def nullish_coalesce_def)

text \<open>
  C7: for an argument that is not an array and not an object whose \<open>$proc ?? path\<close> is
  truthy (so for every object with neither property), \<open>exec\<close> fails with the error
  \<open>Invalid procedure reference\<close>; the state changes in the spy history of \<open>exec\<close> only,
  and the call log is as before.
\<close>

theorem exec_invalid_reference:
  assumes "\<not> isArray x" "\<not> (isObject x \<and> truthy (refPath x))"
  shows "fst (exec st x i now) = invalidReference \<and>
         snd (exec st x i now) = st\<lparr>execMock := execMock st @ [(x, i)]\<rparr> \<and>
         call_log (snd (exec st x i now)) = call_log st"
  using assms by (auto simp: exec_def Let_def)

text \<open>C7 at \<open>exec(42)\<close>, after one recorded call.\<close>

theorem exec_invalid_reference_witness:
  "\<not> isArray (JNum 42) \<and> \<not> isObject (JNum 42) \<and>
   result (fst (exec
       (snd (call (createMockClient \<lparr>opt_defaultResponse = None, opt_recordCalls = None\<rparr>)
          [''fs'', ''read''] JNull 1)) (JNum 42) JUndefined 2))
     = Inl (Error ''Invalid procedure reference'') \<and>
   call_log (snd (exec
       (snd (call (createMockClient \<lparr>opt_defaultResponse = None, opt_recordCalls = None\<rparr>)
          [''fs'', ''read''] JNull 1)) (JNum 42) JUndefined 2))
     = [\<lparr>path = pathValue [''fs'', ''read''], input = JNull, timestamp = 1\<rparr>]"
  using exec_invalid_reference
    [of "JNum 42" "snd (call (createMockClient \<lparr>opt_defaultResponse = None, opt_recordCalls = None\<rparr>)
          [''fs'', ''read''] JNull 1)" JUndefined 2]
  by (simp add: invalidReference_def call_def pathValue_def executeCall_def
      push_call_def createMockClient_def pathToKey_def call_log_def
      read_array_def array_contents_def Let_def)

section \<open>C8: reset\<close>

text \<open>
  C8: \<open>reset()\<close> empties the call log, both registries and both spy histories and keeps
  the default response, so that what can be observed of the engine is what can be
  observed of a client just constructed with the same options. A call after \<open>reset()\<close>
  resolves the default response: it returns the default's output, unless the default
  carries an error.
\<close>

theorem reset_restores:
  "call_log (reset st) = [] \<and>
   responses (reset st) = Map.empty \<and>
   implementations (reset st) = Map.empty \<and>
   callMock (reset st) = [] \<and> execMock (reset st) = [] \<and>
   defaultResponse (reset st) = defaultResponse st \<and>
   engine_view (reset st) =
     engine_view (createMockClient \<lparr>opt_defaultResponse = Some (defaultResponse st),
                                     opt_recordCalls = Some (recordCalls st)\<rparr>) \<and>
   fst (call (reset st) A i now) =
     \<lparr>result = (case error (defaultResponse st) of
                  Some e \<Rightarrow> Inl e | None \<Rightarrow> Inr (output' (defaultResponse st))),
      waited = (case delay (defaultResponse st) of
                  Some d \<Rightarrow> if d \<noteq> 0 then Some d else None | None \<Rightarrow> None)\<rparr> \<and>
   (error (defaultResponse st) = None \<longrightarrow>
      result (fst (call (reset st) A i now)) = Inr (output' (defaultResponse st)))"
  by (simp add: reset_def engine_view_def createMockClient_def call_log_def read_array_def
      array_contents_def call_def executeCall_def pathValue_def push_call_def Let_def)

text \<open>
  C8 on a client with default output \<open>"default"\<close>, after a response was registered for
  \<open>["test"]\<close> and called: after \<open>reset()\<close> the log is empty and \<open>["test"]\<close> gives the
  default.
\<close>

theorem reset_restores_witness:
  "error (defaultResponse (snd (run [SetResponse [''test''] (mockOutput (JStr ''result'')),
        Call [''test''] JNull 1]
      (createMockClient \<lparr>opt_defaultResponse = Some (mockOutput (JStr ''default'')),
                          opt_recordCalls = None\<rparr>)))) = None \<and>
   fst (run [SetResponse [''test''] (mockOutput (JStr ''result'')), Call [''test''] JNull 1]
      (createMockClient \<lparr>opt_defaultResponse = Some (mockOutput (JStr ''default'')),
                          opt_recordCalls = None\<rparr>))
     = [\<lparr>result = Inr (JStr ''result''), waited = None\<rparr>] \<and>
   call_log (reset (snd (run [SetResponse [''test''] (mockOutput (JStr ''result'')),
        Call [''test''] JNull 1]
      (createMockClient \<lparr>opt_defaultResponse = Some (mockOutput (JStr ''default'')),
                          opt_recordCalls = None\<rparr>)))) = [] \<and>
   result (fst (call (reset (snd (run [SetResponse [''test''] (mockOutput (JStr ''result'')),
        Call [''test''] JNull 1]
      (createMockClient \<lparr>opt_defaultResponse = Some (mockOutput (JStr ''default'')),
                          opt_recordCalls = None\<rparr>)))) [''test''] JNull 2))
     = Inr (JStr ''default'')"
  using reset_restores
    [of "snd (run [SetResponse [''test''] (mockOutput (JStr ''result'')), Call [''test''] JNull 1]
      (createMockClient \<lparr>opt_defaultResponse = Some (mockOutput (JStr ''default'')),
                          opt_recordCalls = None\<rparr>))" "[''test'']" JNull 2]
  by (simp add: createMockClient_def mockResponse_def mockOutput_def call_def executeCall_def
      pathValue_def pathToKey_def push_call_def Let_def)

section \<open>C9: the array returned by getCalls\<close>

text \<open>
  C9, as stated, fails: the array returned by \<open>getCalls()\<close> holds the record objects of
  the live log themselves. After one call, assigning to the \<open>input\<close> of the record in the
  returned array changes the live log and what a later \<open>getCalls()\<close> returns.
\<close>

theorem getCalls_records_shared:
  "array_contents
     (snd (run [Call [''fs'', ''read''] (JStr ''/a'') 0, GetCalls]
        (createMockClient \<lparr>opt_defaultResponse = None, opt_recordCalls = None\<rparr>))) 1 = [0] \<and>
   call_log
     (snd (run [Call [''fs'', ''read''] (JStr ''/a'') 0, GetCalls]
        (createMockClient \<lparr>opt_defaultResponse = None, opt_recordCalls = None\<rparr>)))
     = [\<lparr>path = pathValue [''fs'', ''read''], input = JStr ''/a'', timestamp = 0\<rparr>] \<and>
   call_log
     (object_write
        (snd (run [Call [''fs'', ''read''] (JStr ''/a'') 0, GetCalls]
           (createMockClient \<lparr>opt_defaultResponse = None, opt_recordCalls = None\<rparr>)))
        0 \<lparr>path = pathValue [''fs'', ''read''], input = JStr ''changed'', timestamp = 0\<rparr>)
     = [\<lparr>path = pathValue [''fs'', ''read''], input = JStr ''changed'', timestamp = 0\<rparr>] \<and>
   read_array
     (snd (getCalls (object_write
        (snd (run [Call [''fs'', ''read''] (JStr ''/a'') 0, GetCalls]
           (createMockClient \<lparr>opt_defaultResponse = None, opt_recordCalls = None\<rparr>)))
        0 \<lparr>path = pathValue [''fs'', ''read''], input = JStr ''changed'', timestamp = 0\<rparr>))) 2
     = [\<lparr>path = pathValue [''fs'', ''read''], input = JStr ''changed'', timestamp = 0\<rparr>]"
  by (simp add: createMockClient_def call_def executeCall_def pathValue_def pathToKey_def
      push_call_def getCalls_def object_write_def call_log_def read_array_def
      array_contents_def Let_def)

lemma holds_snapshot_push_call:
  assumes "holds_snapshot a L s"
  shows "holds_snapshot a L (push_call s c)"
proof -
  have "nextObject s \<notin> set (array_contents s a)"
    using assms by (auto simp: holds_snapshot_def list_all_iff)
  then show ?thesis using assms
    by (auto simp: holds_snapshot_def push_call_def array_contents_def read_array_def
        map_filter_fresh list_all_iff)
qed

lemma holds_snapshot_callMock [simp]:
  "holds_snapshot a L (s\<lparr>callMock := h\<rparr>) = holds_snapshot a L s"
  by (simp add: holds_snapshot_def array_contents_def read_array_def)

lemma holds_snapshot_execMock [simp]:
  "holds_snapshot a L (s\<lparr>execMock := h\<rparr>) = holds_snapshot a L s"
  by (simp add: holds_snapshot_def array_contents_def read_array_def)

text \<open>No operation of the client changes what a snapshot reads as.\<close>

lemma holds_snapshot_step:
  assumes "holds_snapshot a L s"
  shows "holds_snapshot a L (snd (step x s))"
proof (cases x)
  case (Call p i now)
  then show ?thesis using assms
    by (simp add: call_def split_beta snd_executeCall holds_snapshot_push_call)
next
  case (Exec ref i now)
  then show ?thesis using assms
    by (simp add: exec_def split_beta snd_executeCall holds_snapshot_push_call Let_def)
next
  case GetCalls
  then show ?thesis using assms
    by (simp add: holds_snapshot_def getCalls_def array_contents_def read_array_def)
next
  case (GetCallsFor p)
  then show ?thesis using assms
    by (simp add: holds_snapshot_def getCallsFor_def array_contents_def read_array_def
        split: sum.splits)
next
  case ClearCalls
  then show ?thesis using assms
    by (simp add: holds_snapshot_def clearCalls_def array_contents_def read_array_def)
next
  case (SetResponse p r)
  then show ?thesis using assms
    by (simp add: holds_snapshot_def mockResponse_def array_contents_def read_array_def)
next
  case (SetImplementation p f)
  then show ?thesis using assms
    by (simp add: holds_snapshot_def mockImplementation_def array_contents_def read_array_def)
next
  case Reset
  then show ?thesis using assms
    by (simp add: holds_snapshot_def reset_def array_contents_def read_array_def)
qed

lemma holds_snapshot_run: "holds_snapshot a L s \<Longrightarrow> holds_snapshot a L (snd (run xs s))"
proof (induction xs arbitrary: s)
  case Nil
  then show ?case by simp
next
  case (Cons x xs)
  from Cons.IH [OF holds_snapshot_step [OF Cons.prems, of x]]
  show ?case by (simp add: split_beta)
qed

lemma holds_snapshot_getCalls:
  "wf st \<Longrightarrow> holds_snapshot (fst (getCalls st)) (call_log st) (snd (getCalls st))"
  by (auto simp: holds_snapshot_def wf_def getCalls_def array_contents_def read_array_def
      call_log_def list_all_iff)

text \<open>A write to an array that is not the client's own commutes with every operation.\<close>

lemma filterCalls_array_write [simp]:
  "filterCalls (array_write s a ys) p rs = filterCalls s p rs"
  by (induction rs) (simp_all add: array_write_def split: option.splits sum.splits)

lemma view_array_write: "a \<noteq> calls s \<Longrightarrow> view (array_write s a ys) = view s"
  by (simp add: view_def call_log_def read_array_def array_contents_def array_write_def)

lemma call_log_array_write: "a \<noteq> calls s \<Longrightarrow> call_log (array_write s a ys) = call_log s"
  by (simp add: call_log_def read_array_def array_contents_def array_write_def)

lemma push_call_array_write:
  "a \<noteq> calls s \<Longrightarrow> push_call (array_write s a ys) c = array_write (push_call s c) a ys"
  by (simp add: push_call_def array_write_def array_contents_def fun_upd_twist)

lemma array_write_callMock:
  "array_write (s\<lparr>callMock := h\<rparr>) a ys = (array_write s a ys)\<lparr>callMock := h\<rparr>"
  by (simp add: array_write_def)

lemma array_write_execMock:
  "array_write (s\<lparr>execMock := h\<rparr>) a ys = (array_write s a ys)\<lparr>execMock := h\<rparr>"
  by (simp add: array_write_def)

lemma executeCall_array_write:
  assumes "a \<noteq> calls s"
  shows "executeCall (array_write s a ys) p i now =
           (fst (executeCall s p i now), array_write (snd (executeCall s p i now)) a ys)"
  using assms
  by (simp add: executeCall_def Let_def push_call_array_write view_array_write
      split: jsval.splits option.splits)

lemma step_array_write:
  assumes "a \<noteq> calls s" "a < nextArray s"
  shows "step x (array_write s a ys) = (fst (step x s), array_write (snd (step x s)) a ys)"
proof (cases x)
  case (Call p i now)
  have "a \<noteq> calls (s\<lparr>callMock := callMock s @ [(pathValue p, i)]\<rparr>)" using assms by simp
  from executeCall_array_write [OF this] show ?thesis
    by (simp add: Call call_def split_beta array_write_callMock [symmetric])
next
  case (Exec ref i now)
  have "a \<noteq> calls (s\<lparr>execMock := execMock s @ [(ref, i)]\<rparr>)" using assms by simp
  from executeCall_array_write [OF this] show ?thesis
    by (simp add: Exec exec_def split_beta Let_def array_write_execMock [symmetric])
next
  case GetCalls
  then show ?thesis using assms
    by (simp add: getCalls_def array_write_def array_contents_def fun_upd_twist)
next
  case (GetCallsFor p)
  have c: "array_contents (array_write s a ys) (calls s) = array_contents s (calls s)"
    using assms by (simp add: array_contents_def array_write_def)
  show ?thesis
  proof (cases "filterCalls s p (array_contents s (calls s))")
    case (Inl e)
    then show ?thesis by (simp add: GetCallsFor getCallsFor_def c)
  next
    case (Inr kept)
    then show ?thesis using assms
      by (simp add: GetCallsFor getCallsFor_def c) (simp add: array_write_def fun_upd_twist)
  qed
next
  case ClearCalls
  then show ?thesis using assms by (simp add: clearCalls_def array_write_def fun_upd_twist)
next
  case (SetResponse p r)
  then show ?thesis by (simp add: mockResponse_def array_write_def)
next
  case (SetImplementation p f)
  then show ?thesis by (simp add: mockImplementation_def array_write_def)
next
  case Reset
  then show ?thesis using assms by (simp add: reset_def array_write_def fun_upd_twist)
qed

lemma step_frame:
  "calls (snd (step x s)) = calls s \<and> nextArray s \<le> nextArray (snd (step x s))"
  by (cases x)
    (simp_all add: call_def exec_def split_beta snd_executeCall getCalls_def
      getCallsFor_def clearCalls_def mockResponse_def mockImplementation_def reset_def Let_def
      split: sum.splits)

lemma run_frame:
  "calls (snd (run xs s)) = calls s \<and> nextArray s \<le> nextArray (snd (run xs s))"
proof (induction xs arbitrary: s)
  case Nil
  then show ?case by simp
next
  case (Cons x xs)
  from Cons [of "snd (step x s)"] step_frame [of x s] show ?case by (simp add: split_beta)
qed

lemma run_array_write:
  "a \<noteq> calls s \<Longrightarrow> a < nextArray s \<Longrightarrow>
   run xs (array_write s a ys) = (fst (run xs s), array_write (snd (run xs s)) a ys)"
proof (induction xs arbitrary: s)
  case Nil
  then show ?case by simp
next
  case (Cons x xs)
  have "a \<noteq> calls (snd (step x s))" "a < nextArray (snd (step x s))"
    using step_frame [of x s] Cons.prems by auto
  from Cons.IH [OF this] step_array_write [OF Cons.prems, of x ys]
  show ?case by (simp add: split_beta split: option.splits)
qed

text \<open>
  C9, amended: \<open>getCalls()\<close> returns the full call log, in invocation order, as a new
  array whose elements are the record objects of the log, and the live log is as
  before. No operation of the client changes the returned array: after any sequence
  \<open>xs\<close> of client operations (\<open>call\<close>, \<open>exec\<close>, \<open>getCalls\<close>, \<open>getCallsFor\<close>,
  \<open>clearCalls\<close>, \<open>mockResponse\<close>, \<open>mockImplementation\<close>, \<open>reset\<close>) it still reads as the
  log read when it was returned. No change of the returned array changes the log: when
  the caller gives the array any new content \<open>ys\<close>, at once or after any operations
  \<open>xs\<close>, then whatever operations \<open>zs\<close> follow, the live log and what a later
  \<open>getCalls()\<close> returns are the same as without the change.
\<close>

theorem getCalls_snapshot:
  assumes "wf st"
  shows "read_array (snd (getCalls st)) (fst (getCalls st)) = call_log st \<and>
         call_log (snd (getCalls st)) = call_log st \<and>
         array_contents (snd (getCalls st)) (fst (getCalls st))
           = array_contents (snd (getCalls st)) (calls (snd (getCalls st))) \<and>
         read_array (snd (run xs (snd (getCalls st)))) (fst (getCalls st)) = call_log st \<and>
         read_array (snd (call (snd (getCalls st)) A i now)) (fst (getCalls st)) = call_log st \<and>
         read_array (snd (exec (snd (getCalls st)) ref i now)) (fst (getCalls st)) = call_log st \<and>
         read_array (clearCalls (snd (getCalls st))) (fst (getCalls st)) = call_log st \<and>
         read_array (reset (snd (getCalls st))) (fst (getCalls st)) = call_log st \<and>
         call_log (array_write (snd (getCalls st)) (fst (getCalls st)) ys) = call_log st \<and>
         call_log (snd (run zs
             (array_write (snd (run xs (snd (getCalls st)))) (fst (getCalls st)) ys)))
           = call_log (snd (run zs (snd (run xs (snd (getCalls st)))))) \<and>
         read_array
           (snd (getCalls (snd (run zs
              (array_write (snd (run xs (snd (getCalls st)))) (fst (getCalls st)) ys)))))
           (fst (getCalls (snd (run zs
              (array_write (snd (run xs (snd (getCalls st)))) (fst (getCalls st)) ys)))))
           = call_log (snd (run zs (snd (run xs (snd (getCalls st))))))"
proof -
  let ?a = "fst (getCalls st)" and ?s = "snd (getCalls st)"
  have h: "holds_snapshot ?a (call_log st) ?s" by (rule holds_snapshot_getCalls [OF assms])
  have r: "read_array (snd (run ws ?s)) ?a = call_log st" for ws
    using holds_snapshot_run [OF h, of ws] by (simp add: holds_snapshot_def)
  have 1: "read_array (snd (call ?s A i now)) ?a = call_log st"
    using r [of "[Call A i now]"] by (simp add: split_beta)
  have 2: "read_array (snd (exec ?s ref i now)) ?a = call_log st"
    using r [of "[Exec ref i now]"] by (simp add: split_beta)
  have 3: "read_array (clearCalls ?s) ?a = call_log st"
    using r [of "[ClearCalls]"] by simp
  have 4: "read_array (reset ?s) ?a = call_log st"
    using r [of "[Reset]"] by simp
  let ?t = "snd (run xs ?s)"
  have f: "?a \<noteq> calls ?t" "?a < nextArray ?t"
    using holds_snapshot_run [OF h, of xs] by (simp_all add: holds_snapshot_def)
  have w: "run zs (array_write ?t ?a ys) = (fst (run zs ?t), array_write (snd (run zs ?t)) ?a ys)"
    by (rule run_array_write [OF f])
  have c: "?a \<noteq> calls (snd (run zs ?t))" using f(1) run_frame [of zs ?t] by simp
  have 5: "call_log (snd (run zs (array_write ?t ?a ys))) = call_log (snd (run zs ?t))"
    by (simp add: w call_log_array_write [OF c])
  have 6: "call_log (array_write ?s ?a ys) = call_log st"
    using h call_log_getCalls [OF assms]
    by (simp add: call_log_array_write holds_snapshot_def)
  show ?thesis
    using r [of xs] 1 2 3 4 5 6 h call_log_getCalls [OF assms]
    by (simp add: w read_getCalls holds_snapshot_def) (simp add: getCalls_def array_contents_def)
qed

text \<open>
  The amended C9 after two calls: the returned array still reads as the two records
  after a third call, \<open>clearCalls()\<close> and \<open>reset()\<close>; and when the caller empties the
  returned array, the live log still has both records.
\<close>

theorem getCalls_snapshot_witness:
  "wf (snd (run [Call [''db'', ''query''] (JNum 1) 5, Call [''db'', ''query''] (JNum 2) 5]
        (createMockClient \<lparr>opt_defaultResponse = None, opt_recordCalls = None\<rparr>))) \<and>
   fst (getCalls (snd (run [Call [''db'', ''query''] (JNum 1) 5, Call [''db'', ''query''] (JNum 2) 5]
        (createMockClient \<lparr>opt_defaultResponse = None, opt_recordCalls = None\<rparr>)))) = 1 \<and>
   call_log (snd (run [Call [''db'', ''query''] (JNum 3) 6, ClearCalls, Reset]
       (snd (getCalls (snd (run [Call [''db'', ''query''] (JNum 1) 5, Call [''db'', ''query''] (JNum 2) 5]
          (createMockClient \<lparr>opt_defaultResponse = None, opt_recordCalls = None\<rparr>))))))) = [] \<and>
   read_array (snd (run [Call [''db'', ''query''] (JNum 3) 6, ClearCalls, Reset]
       (snd (getCalls (snd (run [Call [''db'', ''query''] (JNum 1) 5, Call [''db'', ''query''] (JNum 2) 5]
          (createMockClient \<lparr>opt_defaultResponse = None, opt_recordCalls = None\<rparr>))))))) 1
     = [\<lparr>path = pathValue [''db'', ''query''], input = JNum 1, timestamp = 5\<rparr>,
        \<lparr>path = pathValue [''db'', ''query''], input = JNum 2, timestamp = 5\<rparr>] \<and>
   call_log (array_write
       (snd (getCalls (snd (run [Call [''db'', ''query''] (JNum 1) 5, Call [''db'', ''query''] (JNum 2) 5]
          (createMockClient \<lparr>opt_defaultResponse = None, opt_recordCalls = None\<rparr>))))) 1 [])
     = [\<lparr>path = pathValue [''db'', ''query''], input = JNum 1, timestamp = 5\<rparr>,
        \<lparr>path = pathValue [''db'', ''query''], input = JNum 2, timestamp = 5\<rparr>]"
  using getCalls_snapshot
    [where st = "snd (run [Call [''db'', ''query''] (JNum 1) 5, Call [''db'', ''query''] (JNum 2) 5]
        (createMockClient \<lparr>opt_defaultResponse = None, opt_recordCalls = None\<rparr>))"
       and xs = "[Call [''db'', ''query''] (JNum 3) 6, ClearCalls, Reset]"
       and ys = "[]" and zs = "[]" and A = "[]" and i = JNull and now = 0 and ref = JNull]
  by (simp add: createMockClient_def call_def executeCall_def pathValue_def pathToKey_def
      push_call_def getCalls_def clearCalls_def reset_def array_write_def call_log_def
      read_array_def wf_def array_contents_def Let_def)

section \<open>C10: the recording flag\<close>

lemma log_blind_views:
  assumes "log_blind f" "seen_call_args v = seen_call_args w" "seen_exec_args v = seen_exec_args w"
  shows "f i v = f i w"
proof -
  have "v = w\<lparr>seen_calls := seen_calls v\<rparr>" using assms(2,3) by simp
  then have "f i v = f i (w\<lparr>seen_calls := seen_calls v\<rparr>)" by simp
  also have "\<dots> = f i w" using assms(1) by (simp add: log_blind_def)
  finally show ?thesis .
qed

lemma same_client_executeCall:
  assumes "same_client s t"
    and "\<forall>segs f. p = JArr segs \<longrightarrow> implementations s (pathToKey segs) = Some f \<longrightarrow> log_blind f"
  shows "fst (executeCall s p i now) = fst (executeCall t p i now)"
proof (cases p)
  case (JArr segs)
  show ?thesis
  proof (cases "implementations s (pathToKey segs)")
    case None
    then show ?thesis using assms(1)
      by (simp add: JArr same_client_def executeCall_def Let_def split: option.splits)
  next
    case (Some f)
    then have b: "log_blind f" using assms(2) JArr by simp
    let ?c = "\<lparr>path = JArr segs, input = i, timestamp = now\<rparr>"
    have "f i (view (if recordCalls s then push_call s ?c else s))
        = f i (view (if recordCalls t then push_call t ?c else t))"
      using assms(1) by (intro log_blind_views [OF b]) (simp_all add: view_def same_client_def)
    then show ?thesis using assms(1) Some
      by (auto simp: JArr same_client_def executeCall_def Let_def split: if_splits)
  qed
qed (simp_all add: executeCall_def Let_def)

lemma same_client_executeCall_snd:
  "same_client s t \<Longrightarrow> same_client (snd (executeCall s p i now)) (snd (executeCall t q j m))"
  by (simp add: same_client_def snd_executeCall)

lemma blind_table_executeCall:
  "blind_table s \<Longrightarrow> blind_table (snd (executeCall s p i now))"
  by (simp add: blind_table_def snd_executeCall)

lemma same_client_step:
  assumes "same_client s t" "blind_table s" "blind_op x"
  shows "fst (step x s) = fst (step x t) \<and> same_client (snd (step x s)) (snd (step x t)) \<and>
         blind_table (snd (step x s))"
proof (cases x)
  case (Call p i now)
  let ?s = "s\<lparr>callMock := callMock s @ [(pathValue p, i)]\<rparr>"
  let ?t = "t\<lparr>callMock := callMock t @ [(pathValue p, i)]\<rparr>"
  have c: "same_client ?s ?t" using assms(1) by (simp add: same_client_def)
  have b: "blind_table ?s" using assms(2) by (simp add: blind_table_def)
  have "fst (executeCall ?s (pathValue p) i now) = fst (executeCall ?t (pathValue p) i now)"
    using b by (intro same_client_executeCall [OF c]) (simp add: blind_table_def)
  then show ?thesis
    using same_client_executeCall_snd [OF c] blind_table_executeCall [OF b]
    by (simp add: Call call_def split_beta)
next
  case (Exec ref i now)
  let ?s = "s\<lparr>execMock := execMock s @ [(ref, i)]\<rparr>"
  let ?t = "t\<lparr>execMock := execMock t @ [(ref, i)]\<rparr>"
  have c: "same_client ?s ?t" using assms(1) by (simp add: same_client_def)
  have b: "blind_table ?s" using assms(2) by (simp add: blind_table_def)
  have e: "fst (executeCall ?s q j now) = fst (executeCall ?t q j now)" for q j
    using b by (intro same_client_executeCall [OF c]) (simp add: blind_table_def)
  show ?thesis
    using e same_client_executeCall_snd [OF c] blind_table_executeCall [OF b] c b
    by (simp add: Exec exec_def split_beta Let_def)
next
  case GetCalls
  then show ?thesis using assms by (simp add: same_client_def blind_table_def getCalls_def)
next
  case (GetCallsFor p)
  then show ?thesis using assms
    by (simp add: same_client_def blind_table_def getCallsFor_def split: sum.splits)
next
  case ClearCalls
  then show ?thesis using assms by (simp add: same_client_def blind_table_def clearCalls_def)
next
  case (SetResponse p r)
  then show ?thesis using assms by (simp add: same_client_def blind_table_def mockResponse_def)
next
  case (SetImplementation p f)
  then show ?thesis using assms
    by (simp add: same_client_def blind_table_def mockImplementation_def)
next
  case Reset
  then show ?thesis using assms by (simp add: same_client_def blind_table_def reset_def)
qed

lemma same_client_run:
  "same_client s t \<Longrightarrow> blind_table s \<Longrightarrow> list_all blind_op xs \<Longrightarrow>
   fst (run xs s) = fst (run xs t)"
proof (induction xs arbitrary: s t)
  case Nil
  then show ?case by simp
next
  case (Cons x xs)
  from same_client_step [OF Cons.prems(1,2), of x] Cons.prems(3)
  have o: "fst (step x s) = fst (step x t)"
    and r: "same_client (snd (step x s)) (snd (step x t))"
    and b: "blind_table (snd (step x s))" by simp_all
  from Cons.IH [OF r b] Cons.prems(3) o
  show ?case by (simp add: split_beta split: option.splits)
qed

lemma recording_off_step:
  assumes "recording_off st"
  shows "recording_off (snd (step x st))"
proof (cases x)
  case (Call p i now)
  then show ?thesis using assms
    by (simp add: call_def split_beta snd_executeCall recording_off_def array_contents_def)
next
  case (Exec ref i now)
  then show ?thesis using assms
    by (simp add: exec_def split_beta snd_executeCall recording_off_def array_contents_def
        Let_def)
next
  case GetCalls
  then show ?thesis using assms
    by (simp add: recording_off_def getCalls_def array_contents_def)
next
  case (GetCallsFor p)
  then show ?thesis using assms
    by (simp add: recording_off_def getCallsFor_def array_contents_def)
next
  case ClearCalls
  then show ?thesis using assms
    by (simp add: recording_off_def clearCalls_def array_contents_def)
next
  case (SetResponse p r)
  then show ?thesis using assms
    by (simp add: recording_off_def mockResponse_def array_contents_def)
next
  case (SetImplementation p f)
  then show ?thesis using assms
    by (simp add: recording_off_def mockImplementation_def array_contents_def)
next
  case Reset
  then show ?thesis using assms
    by (simp add: recording_off_def reset_def array_contents_def)
qed

lemma recording_off_run: "recording_off st \<Longrightarrow> recording_off (snd (run xs st))"
proof (induction xs arbitrary: st)
  case Nil
  then show ?case by simp
next
  case (Cons x xs)
  from Cons.IH [OF recording_off_step [OF Cons.prems, of x]]
  show ?case by (simp add: split_beta)
qed

text \<open>
  C10, as stated, fails: the record is pushed before the implementation runs, so an
  implementation that reads the log can tell the flag. With the implementation
  \<open>() => client.getCalls().length\<close> registered for \<open>["n"]\<close>, the call of \<open>["n"]\<close> gives
  \<open>1\<close> on a client constructed with \<open>recordCalls = true\<close> and \<open>0\<close> on one constructed
  with \<open>recordCalls = false\<close>.
\<close>

theorem recordCalls_visible:
  "result (fst (call (mockImplementation
       (createMockClient \<lparr>opt_defaultResponse = None, opt_recordCalls = Some True\<rparr>)
       [''n''] (\<lambda>v w. Inr (JNum (of_nat (length (seen_calls w))))))
     [''n''] JUndefined 0)) = Inr (JNum 1) \<and>
   result (fst (call (mockImplementation
       (createMockClient \<lparr>opt_defaultResponse = None, opt_recordCalls = Some False\<rparr>)
       [''n''] (\<lambda>v w. Inr (JNum (of_nat (length (seen_calls w))))))
     [''n''] JUndefined 0)) = Inr (JNum 0) \<and>
   result (fst (call (mockImplementation
       (createMockClient \<lparr>opt_defaultResponse = None, opt_recordCalls = Some True\<rparr>)
       [''n''] (\<lambda>v w. Inr (JNum (of_nat (length (seen_calls w))))))
     [''n''] JUndefined 0))
   \<noteq> result (fst (call (mockImplementation
       (createMockClient \<lparr>opt_defaultResponse = None, opt_recordCalls = Some False\<rparr>)
       [''n''] (\<lambda>v w. Inr (JNum (of_nat (length (seen_calls w))))))
     [''n''] JUndefined 0))"
  by (simp add: call_def executeCall_def pathValue_def pathToKey_def push_call_def
      createMockClient_def mockImplementation_def view_def call_log_def read_array_def
      array_contents_def Let_def)

text \<open>
  C10, amended: as long as no registered implementation reads the call log, the flag
  does not show in any outcome. A client constructed with \<open>recordCalls = true\<close> and one
  constructed with \<open>recordCalls = false\<close>, with the same default response and driven
  through the same operations \<open>xs\<close>, none of which registers an implementation that reads
  the log, give the same outcome at every invocation; and in any state \<open>st\<close> whose
  implementation for the address, if there is one, does not read the log, a call has the
  same outcome with the flag on and with the flag off. With \<open>recordCalls = false\<close>,
  whatever the operations \<open>ws\<close> and the implementations they register, the call log stays
  empty and \<open>getCalls()\<close> returns an empty array.
\<close>

theorem recordCalls_noninterference:
  assumes "list_all blind_op xs"
    and "\<forall>f. implementations st (pathToKey (map JStr A)) = Some f \<longrightarrow> log_blind f"
  shows
  "fst (run xs (createMockClient \<lparr>opt_defaultResponse = d, opt_recordCalls = Some True\<rparr>))
     = fst (run xs (createMockClient \<lparr>opt_defaultResponse = d, opt_recordCalls = Some False\<rparr>)) \<and>
   fst (call (st\<lparr>recordCalls := True\<rparr>) A i now)
     = fst (call (st\<lparr>recordCalls := False\<rparr>) A i now) \<and>
   call_log (snd (run ws
       (createMockClient \<lparr>opt_defaultResponse = d, opt_recordCalls = Some False\<rparr>))) = [] \<and>
   read_array
     (snd (getCalls (snd (run ws
        (createMockClient \<lparr>opt_defaultResponse = d, opt_recordCalls = Some False\<rparr>)))))
     (fst (getCalls (snd (run ws
        (createMockClient \<lparr>opt_defaultResponse = d, opt_recordCalls = Some False\<rparr>)))))
     = []"
proof -
  let ?on = "createMockClient \<lparr>opt_defaultResponse = d, opt_recordCalls = Some True\<rparr>"
  let ?off = "createMockClient \<lparr>opt_defaultResponse = d, opt_recordCalls = Some False\<rparr>"
  have "same_client ?on ?off" by (simp add: same_client_def createMockClient_def)
  moreover have "blind_table ?on" by (simp add: blind_table_def createMockClient_def)
  ultimately have 1: "fst (run xs ?on) = fst (run xs ?off)"
    using assms(1) by (rule same_client_run)
  let ?s = "st\<lparr>recordCalls := True, callMock := callMock st @ [(pathValue A, i)]\<rparr>"
  let ?t = "st\<lparr>recordCalls := False, callMock := callMock st @ [(pathValue A, i)]\<rparr>"
  have c: "same_client ?s ?t" by (simp add: same_client_def)
  have "fst (executeCall ?s (pathValue A) i now) = fst (executeCall ?t (pathValue A) i now)"
    using assms(2) by (intro same_client_executeCall [OF c]) (simp add: pathValue_def)
  then have 2: "fst (call (st\<lparr>recordCalls := True\<rparr>) A i now)
      = fst (call (st\<lparr>recordCalls := False\<rparr>) A i now)"
    by (simp add: call_def)
  have "recording_off ?off"
    by (simp add: recording_off_def createMockClient_def array_contents_def)
  then have "recording_off (snd (run ws ?off))" by (rule recording_off_run)
  then have 3: "call_log (snd (run ws ?off)) = []"
    by (simp add: recording_off_def call_log_def read_array_def)
  show ?thesis using 1 2 3 by (simp add: read_getCalls)
qed

text \<open>
  The amended C10 on a run with an implementation that echoes its input, a failing
  response, a call of an unregistered address and a malformed reference: the four
  outcomes are the same with the flag on and off, and without recording the log is
  empty.
\<close>

theorem recordCalls_noninterference_witness:
  "list_all blind_op
     [SetImplementation [''echo''] (\<lambda>v w. Inr v),
      SetResponse [''fs'', ''read''] (mockError (Inr ''ENOENT'')),
      Call [''echo''] (JStr ''hi'') 0, Call [''fs'', ''read''] JNull 1,
      Call [''db'', ''query''] JNull 2, Exec (JNum 42) JUndefined 3] \<and>
   fst (run [SetImplementation [''echo''] (\<lambda>v w. Inr v),
             SetResponse [''fs'', ''read''] (mockError (Inr ''ENOENT'')),
             Call [''echo''] (JStr ''hi'') 0, Call [''fs'', ''read''] JNull 1,
             Call [''db'', ''query''] JNull 2, Exec (JNum 42) JUndefined 3]
        (createMockClient \<lparr>opt_defaultResponse = Some (mockOutput (JStr ''ok'')),
                            opt_recordCalls = Some True\<rparr>))
     = [\<lparr>result = Inr (JStr ''hi''), waited = None\<rparr>,
        \<lparr>result = Inl (Error ''ENOENT''), waited = None\<rparr>,
        \<lparr>result = Inr (JStr ''ok''), waited = None\<rparr>,
        \<lparr>result = Inl (Error ''Invalid procedure reference''), waited = None\<rparr>] \<and>
   fst (run [SetImplementation [''echo''] (\<lambda>v w. Inr v),
             SetResponse [''fs'', ''read''] (mockError (Inr ''ENOENT'')),
             Call [''echo''] (JStr ''hi'') 0, Call [''fs'', ''read''] JNull 1,
             Call [''db'', ''query''] JNull 2, Exec (JNum 42) JUndefined 3]
        (createMockClient \<lparr>opt_defaultResponse = Some (mockOutput (JStr ''ok'')),
                            opt_recordCalls = Some False\<rparr>))
     = [\<lparr>result = Inr (JStr ''hi''), waited = None\<rparr>,
        \<lparr>result = Inl (Error ''ENOENT''), waited = None\<rparr>,
        \<lparr>result = Inr (JStr ''ok''), waited = None\<rparr>,
        \<lparr>result = Inl (Error ''Invalid procedure reference''), waited = None\<rparr>] \<and>
   call_log (snd (run [SetImplementation [''echo''] (\<lambda>v w. Inr v),
             SetResponse [''fs'', ''read''] (mockError (Inr ''ENOENT'')),
             Call [''echo''] (JStr ''hi'') 0, Call [''fs'', ''read''] JNull 1,
             Call [''db'', ''query''] JNull 2, Exec (JNum 42) JUndefined 3]
        (createMockClient \<lparr>opt_defaultResponse = Some (mockOutput (JStr ''ok'')),
                            opt_recordCalls = Some False\<rparr>))) = []"
  using recordCalls_noninterference
    [where xs = "[SetImplementation [''echo''] (\<lambda>v w. Inr v),
          SetResponse [''fs'', ''read''] (mockError (Inr ''ENOENT'')),
          Call [''echo''] (JStr ''hi'') 0, Call [''fs'', ''read''] JNull 1,
          Call [''db'', ''query''] JNull 2, Exec (JNum 42) JUndefined 3]"
       and ws = "[SetImplementation [''echo''] (\<lambda>v w. Inr v),
          SetResponse [''fs'', ''read''] (mockError (Inr ''ENOENT'')),
          Call [''echo''] (JStr ''hi'') 0, Call [''fs'', ''read''] JNull 1,
          Call [''db'', ''query''] JNull 2, Exec (JNum 42) JUndefined 3]"
       and d = "Some (mockOutput (JStr ''ok''))"
       and st = "createMockClient \<lparr>opt_defaultResponse = None, opt_recordCalls = None\<rparr>"
       and A = "[]" and i = JNull and now = 0]
  by (simp add: log_blind_def createMockClient_def mockResponse_def mockImplementation_def
      mockError_def mockOutput_def call_def exec_def executeCall_def invalidReference_def
      pathValue_def pathToKey_def push_call_def Let_def)

end
